theory Spec2Isabelle
  imports Complex_Main
begin

section \<open>Strings\<close>

text \<open>
  A JavaScript string is modelled as a \<^typ>\<open>string\<close>: one \<^typ>\<open>char\<close> per UTF-16 code
  unit, for code units below 256 (ASCII and Latin-1, which covers every literal of the
  sources). \<open>length\<close> is then the source's \<open>.length\<close>. Letters with an accent are
  written by their code.
\<close>

abbreviation a_acute :: char where "a_acute \<equiv> CHR 0xE1"
abbreviation i_acute :: char where "i_acute \<equiv> CHR 0xED"
abbreviation o_acute :: char where "o_acute \<equiv> CHR 0xF3"
abbreviation u_acute :: char where "u_acute \<equiv> CHR 0xFA"

definition upperChars :: string where
  "upperChars = ''ABCDEFGHIJKLMNOPQRSTUVWXYZ''"

definition lowerChars :: string where
  "lowerChars = ''abcdefghijklmnopqrstuvwxyz''"

text \<open>Case mapping of one code unit; only the ASCII letters are mapped.\<close>

definition toLowerChar :: "char \<Rightarrow> char" where
  "toLowerChar c = (case map_of (zip upperChars lowerChars) c of Some d \<Rightarrow> d | None \<Rightarrow> c)"

definition toUpperChar :: "char \<Rightarrow> char" where
  "toUpperChar c = (case map_of (zip lowerChars upperChars) c of Some d \<Rightarrow> d | None \<Rightarrow> c)"

definition toLowerCase :: "string \<Rightarrow> string" where
  "toLowerCase s = map toLowerChar s"

text \<open>The white space that \<open>String.prototype.trim\<close> removes, among the code units below 256.\<close>

definition isSpaceChar :: "char \<Rightarrow> bool" where
  "isSpaceChar c = (c \<in> set [CHR 0x09, CHR 0x0A, CHR 0x0B, CHR 0x0C, CHR 0x0D, CHR 0x20, CHR 0xA0])"

definition trim :: "string \<Rightarrow> string" where
  "trim s = rev (dropWhile isSpaceChar (rev (dropWhile isSpaceChar s)))"

text \<open>\<open>Array.prototype.join\<close>.\<close>

fun join :: "string \<Rightarrow> string list \<Rightarrow> string" where
  "join sep [] = []"
| "join sep [x] = x"
| "join sep (x # y # ys) = x @ sep @ join sep (y # ys)"

section \<open>Data model\<close>

text \<open>
  A stored document of the \<open>Product\<close> model (\<open>models/product.model.js\<close>): the schema's
  paths, the \<open>_id\<close> of the store (here \<open>ident\<close>, a number standing for the ObjectId) and
  the two timestamps of \<open>timestamps: true\<close>. A price is a JavaScript number, modelled as a
  rational; a stock is modelled as an integer.
\<close>

record product =
  ident :: nat
  name :: string
  description :: string
  price :: rat
  category :: string
  stock :: int
  isActive :: bool
  createdAt :: nat
  updatedAt :: nat

text \<open>
  The body of a create request, \<open>req.body\<close>: every field may be absent (\<open>None\<close> is
  \<open>undefined\<close>).
\<close>

record productData =
  nameField :: "string option"
  descriptionField :: "string option"
  priceField :: "rat option"
  stockField :: "int option"
  categoryField :: "string option"
  isActiveField :: "bool option"

text \<open>
  Modelled from the spec: \<open>utils/ApiError\<close> is not among the sources. The spec gives the
  uniform error shape \<open>{ statusCode, message }\<close>; \<open>ApiError\<close> is that pair. The other
  constructors are the errors of the document store's client that \<open>handleMongooseError\<close>
  tells apart: a document validation error with the messages of its paths, a cast error
  with its path and value, a duplicate-key error (code 11000) with the field of its key
  pattern, and any other error with its message.
\<close>

datatype error =
  ApiError int string
| ValidationError "string list"
| CastError string string
| DuplicateKeyError string
| OtherError string

text \<open>
  What a request needs from outside: the regular-expression engine of the store for the
  patterns that are not plain text (given a pattern and a subject, does the subject match
  the pattern ignoring case), the time of the request, and the ObjectId generated for a
  new document.
\<close>

record ctx =
  engine :: "string \<Rightarrow> string \<Rightarrow> bool"
  now :: nat
  newId :: nat

section \<open>Request validation (\<open>middlewares/validator\<close>)\<close>

definition validCategories :: "string list" where
  "validCategories = [''electronics'', ''clothing'', ''food'', ''books'', ''other'']"

definition validateProductCreate :: "productData \<Rightarrow> error + unit" where
  "validateProductCreate body =
     (let e1 = (case nameField body of
                  None \<Rightarrow> [''El nombre es obligatorio'']
                | Some n \<Rightarrow>
                    if n = [] \<or> trim n = [] then [''El nombre es obligatorio'']
                    else if length n < 3 \<or> length n > 100
                      then [''El nombre debe tener entre 3 y 100 caracteres'']
                    else []);
          e2 = (case descriptionField body of
                  None \<Rightarrow> [''La descripci'' @ [o_acute] @ ''n es obligatoria'']
                | Some d \<Rightarrow>
                    if d = [] \<or> trim d = [] then [''La descripci'' @ [o_acute] @ ''n es obligatoria'']
                    else if length d < 10 \<or> length d > 500
                      then [''La descripci'' @ [o_acute] @ ''n debe tener entre 10 y 500 caracteres'']
                    else []);
          e3 = (case priceField body of
                  None \<Rightarrow> [''El precio es obligatorio'']
                | Some v \<Rightarrow>
                    if v < 0 then [''El precio debe ser un n'' @ [u_acute] @ ''mero positivo'']
                    else []);
          e4 = (case stockField body of
                  None \<Rightarrow> []
                | Some k \<Rightarrow>
                    if k < 0 then [''El stock debe ser un n'' @ [u_acute] @ ''mero positivo'']
                    else []);
          e5 = (case categoryField body of
                  None \<Rightarrow> [''La categor'' @ [i_acute] @ ''a es obligatoria'']
                | Some c \<Rightarrow>
                    if c = [] then [''La categor'' @ [i_acute] @ ''a es obligatoria'']
                    else if c \<notin> set validCategories
                      then [''Categor'' @ [i_acute] @ ''a inv'' @ [a_acute] @ ''lida. Opciones: ''
                            @ join '', '' validCategories]
                    else []);
          errors = e1 @ e2 @ e3 @ e4 @ e5
      in if length errors > 0 then Inl (ApiError 400 (join ''; '' errors)) else Inr ())"

section \<open>The schema (\<open>models/product.model.js\<close>)\<close>

definition schemaCategories :: "string list" where
  "schemaCategories =
     [''Electr'' @ [o_acute] @ ''nica'', ''Ropa'', ''Hogar'', ''Libros'', ''Otros'']"

text \<open>
  The validators of the schema, run by \<open>save\<close> on the document built from the data: one
  message for each path that fails, in the order of the paths. The setter \<open>trim: true\<close>
  has been applied to \<open>name\<close> and \<open>description\<close> before; \<open>required\<close> fails on an absent
  value and on the empty string. \<open>stock\<close> and \<open>isActive\<close> have defaults. A required path
  that is absent always has a message, so the last case of \<open>create\<close> below is never
  reached.
\<close>

definition validateName :: "string option \<Rightarrow> string list" where
  "validateName v =
     (case v of
        None \<Rightarrow> [''El nombre del producto es obligatorio'']
      | Some n \<Rightarrow>
          if n = [] then [''El nombre del producto es obligatorio'']
          else if length n < 6 then [''El nombre del producto debe tener al menos 3 caracteres'']
          else if length n > 100
            then [''El nombre del producto no debe exceder los 100 caracteres'']
          else [])"

definition validateDescription :: "string option \<Rightarrow> string list" where
  "validateDescription v =
     (case v of
        None \<Rightarrow> [''La descripci'' @ [o_acute] @ ''n del producto es obligatoria'']
      | Some d \<Rightarrow>
          if d = [] then [''La descripci'' @ [o_acute] @ ''n del producto es obligatoria'']
          else if length d < 20
            then [''La descripci'' @ [o_acute] @ ''n del producto debe tener al menos 10 caracteres'']
          else if length d > 500
            then [''La descripci'' @ [o_acute] @ ''n del producto no debe exceder los 500 caracteres'']
          else [])"

definition validatePrice :: "rat option \<Rightarrow> string list" where
  "validatePrice v =
     (case v of
        None \<Rightarrow> [''El precio del producto es obligatorio'']
      | Some x \<Rightarrow> if x < 0 then [''El precio del producto no puede ser negativo''] else [])"

definition validateCategory :: "string option \<Rightarrow> string list" where
  "validateCategory v =
     (case v of
        None \<Rightarrow> [''La categor'' @ [i_acute] @ ''a del producto es obligatoria'']
      | Some c \<Rightarrow>
          if c = [] then [''La categor'' @ [i_acute] @ ''a del producto es obligatoria'']
          else if c \<notin> set schemaCategories
            then [c @ '' no en una categor'' @ [i_acute] @ ''a v'' @ [a_acute] @ ''lida'']
          else [])"

definition validateStock :: "int \<Rightarrow> string list" where
  "validateStock k = (if k < 0 then [''El stock del producto no puede ser negativo''] else [])"

text \<open>The \<open>pre('save')\<close> hook: the first character of the name in upper case.\<close>

definition capitalize :: "string \<Rightarrow> string" where
  "capitalize s = (case s of [] \<Rightarrow> [] | c # cs \<Rightarrow> toUpperChar c # cs)"

section \<open>The repository (\<open>repositories/product.repository\<close>)\<close>

text \<open>
  The collection is the list of its documents, in the order of the store. Every operation
  takes the collection and, when it writes, returns the new one.
\<close>

text \<open>
  \<open>create\<close>: \<open>new Product(productData)\<close> applies the setters and the defaults and
  generates the \<open>_id\<close>; \<open>save\<close> validates, runs the \<open>pre('save')\<close> hook, sets the
  timestamps and inserts.
\<close>

definition create :: "ctx \<Rightarrow> productData \<Rightarrow> product list \<Rightarrow> product list \<times> (error + product)" where
  "create c productData docs =
     (let nm = map_option trim (nameField productData);
          ds = map_option trim (descriptionField productData);
          st = (case stockField productData of None \<Rightarrow> 0 | Some k \<Rightarrow> k);
          act = (case isActiveField productData of None \<Rightarrow> True | Some b \<Rightarrow> b);
          errors = validateName nm @ validateDescription ds
                   @ validatePrice (priceField productData)
                   @ validateCategory (categoryField productData) @ validateStock st
      in if errors \<noteq> [] then (docs, Inl (ValidationError errors))
         else
           (case (nm, ds, priceField productData, categoryField productData) of
              (Some n, Some d, Some x, Some cat) \<Rightarrow>
                (let p = \<lparr> ident = newId c,
                           name = capitalize n,
                           description = d,
                           price = x,
                           category = cat,
                           stock = st,
                           isActive = act,
                           createdAt = now c,
                           updatedAt = now c \<rparr>
                 in (docs @ [p], Inr p))
            | _ \<Rightarrow> (docs, Inl (ValidationError errors))))"

definition findById :: "nat \<Rightarrow> product list \<Rightarrow> product option" where
  "findById i docs = find (\<lambda>p. ident p = i) docs"

text \<open>
  \<open>Product.findByIdAndUpdate(id, update, { new: true })\<close>: the first document with that
  \<open>_id\<close> is replaced by its update, and the updated document is returned, or \<open>null\<close> when
  there is none.
\<close>

fun findByIdAndUpdate :: "(product \<Rightarrow> product) \<Rightarrow> nat \<Rightarrow> product list \<Rightarrow> product list \<times> product option" where
  "findByIdAndUpdate f i [] = ([], None)"
| "findByIdAndUpdate f i (p # ps) =
     (if ident p = i then (f p # ps, Some (f p))
      else (case findByIdAndUpdate f i ps of (ps', r) \<Rightarrow> (p # ps', r)))"

definition softDelete :: "ctx \<Rightarrow> nat \<Rightarrow> product list \<Rightarrow> product list \<times> product option" where
  "softDelete c i docs =
     findByIdAndUpdate (\<lambda>p. p\<lparr>isActive := False, updatedAt := now c\<rparr>) i docs"


definition findByCategory :: "string \<Rightarrow> product list \<Rightarrow> product list" where
  "findByCategory cat docs = filter (\<lambda>p. category p = cat \<and> isActive p = True) docs"

definition findLowStock :: "int \<Rightarrow> product list \<Rightarrow> product list" where
  "findLowStock threshold docs = filter (\<lambda>p. stock p \<le> threshold \<and> isActive p = True) docs"

text \<open>
  \<open>existsByName\<close> asks the store for a document whose name matches
  \<open>new RegExp(`^${name}$`, 'i')\<close>. When the name is plain text (ASCII characters, none
  of which a regular expression reads as syntax), the pattern is the name itself between
  the two anchors: a stored name matches when it equals the name ignoring case. Stored
  names have been trimmed by the schema, so the end anchor is the end of the name.
  Otherwise the engine of the store decides.
\<close>

definition regexSyntaxChars :: "char list" where
  "regexSyntaxChars = CHR 0x5C # ''^$.|?*+()[]{}''"

definition isPlainText :: "string \<Rightarrow> bool" where
  "isPlainText s = list_all (\<lambda>c. c \<notin> set regexSyntaxChars \<and> (of_char c :: nat) < 128) s"

definition matchesWholeIgnoreCase :: "(string \<Rightarrow> string \<Rightarrow> bool) \<Rightarrow> string \<Rightarrow> string \<Rightarrow> bool" where
  "matchesWholeIgnoreCase eng nm subject =
     (if isPlainText nm then toLowerCase subject = toLowerCase nm
      else eng (''^'' @ nm @ ''$'') subject)"

definition existsByName :: "ctx \<Rightarrow> string \<Rightarrow> nat option \<Rightarrow> product list \<Rightarrow> bool" where
  "existsByName c nm excludeId docs =
     (let query = (\<lambda>p. matchesWholeIgnoreCase (engine c) nm (name p)
                        \<and> (case excludeId of None \<Rightarrow> True | Some i \<Rightarrow> ident p \<noteq> i));
          product = find query docs
      in product \<noteq> None)"

text \<open>
  Sorting, as the store does it for \<open>.sort({ [sortBy]: 1 })\<close> or \<open>-1\<close>: documents are
  compared on the value of the path, strings by their code units; on a path that no
  document has, all documents are equal. The sort is an insertion sort.
\<close>

fun stringLe :: "string \<Rightarrow> string \<Rightarrow> bool" where
  "stringLe [] ys = True"
| "stringLe (x # xs) [] = False"
| "stringLe (x # xs) (y # ys) =
     (if x = y then stringLe xs ys else (of_char x :: nat) < of_char y)"

definition pathLe :: "string \<Rightarrow> product \<Rightarrow> product \<Rightarrow> bool" where
  "pathLe path a b =
     (if path = ''_id'' then ident a \<le> ident b
      else if path = ''name'' then stringLe (name a) (name b)
      else if path = ''description'' then stringLe (description a) (description b)
      else if path = ''price'' then price a \<le> price b
      else if path = ''category'' then stringLe (category a) (category b)
      else if path = ''stock'' then stock a \<le> stock b
      else if path = ''isActive'' then (if isActive a then isActive b else True)
      else if path = ''createdAt'' then createdAt a \<le> createdAt b
      else if path = ''updatedAt'' then updatedAt a \<le> updatedAt b
      else True)"

fun insertDoc :: "(product \<Rightarrow> product \<Rightarrow> bool) \<Rightarrow> product \<Rightarrow> product list \<Rightarrow> product list" where
  "insertDoc le x [] = [x]"
| "insertDoc le x (y # ys) = (if le x y then x # y # ys else y # insertDoc le x ys)"

definition sortDocs :: "string \<Rightarrow> int \<Rightarrow> product list \<Rightarrow> product list" where
  "sortDocs path dir xs =
     foldr (insertDoc (\<lambda>a b. if dir = 1 then pathLe path a b else pathLe path b a)) xs []"

text \<open>\<open>.limit(n)\<close>: the store reads a limit of 0 as no limit.\<close>

definition limitDocs :: "nat \<Rightarrow> product list \<Rightarrow> product list" where
  "limitDocs n xs = (if n = 0 then xs else take n xs)"

record options =
  page :: int
  limit :: nat
  sortBy :: string
  sortOrder :: string

text \<open>The defaults of the destructuring in \<open>findAll\<close>.\<close>

definition defaultOptions :: options where
  "defaultOptions = \<lparr> page = 1, limit = 10, sortBy = ''createdAt'', sortOrder = ''desc'' \<rparr>"

record pagination =
  total_p :: nat
  page_p :: int
  totalPages :: "nat option"
  hasMore :: bool

record findAllResult =
  products :: "product list"
  pagination :: pagination

text \<open>
  \<open>findAll\<close>. The filter object of the query is the predicate that it stands for. The
  store refuses a negative skip; the message of that error is the store's, and the model
  writes a fixed one. \<open>totalPages\<close> is \<open>Math.ceil(total / limit)\<close>, which is not a finite
  number when the limit is 0 (\<open>None\<close>).
\<close>

definition findAll :: "(product \<Rightarrow> bool) \<Rightarrow> options \<Rightarrow> product list \<Rightarrow> error + findAllResult" where
  "findAll filters opts docs =
     (let skip = (page opts - 1) * int (limit opts);
          dir = (if sortOrder opts = ''asc'' then 1 else - 1)
      in if skip < 0 then Inl (OtherError ''skip must be non-negative'')
         else
           (let found = limitDocs (limit opts)
                          (drop (nat skip) (sortDocs (sortBy opts) dir (filter filters docs)));
                total = length (filter filters docs)
            in Inr \<lparr> products = found,
                     pagination =
                       \<lparr> total_p = total,
                         page_p = page opts,
                         totalPages = (if limit opts = 0 then None
                                       else Some ((total + limit opts - 1) div limit opts)),
                         hasMore = (skip + int (length found) < int total) \<rparr> \<rparr>))"

section \<open>The service (\<open>services/product.service\<close>)\<close>

text \<open>The template string \<open>`^${name}$`\<close> writes an absent name as \<open>undefined\<close>.\<close>

definition templateName :: "string option \<Rightarrow> string" where
  "templateName v = (case v of None \<Rightarrow> ''undefined'' | Some n \<Rightarrow> n)"

definition createProduct :: "ctx \<Rightarrow> productData \<Rightarrow> product list \<Rightarrow> product list \<times> (error + product)" where
  "createProduct c productData docs =
     (if existsByName c (templateName (nameField productData)) None docs
        then (docs, Inl (ApiError 400 ''Ya existe un producto con ese nombre''))
      else if (case priceField productData of None \<Rightarrow> False | Some v \<Rightarrow> v < 0.01)
        then (docs, Inl (ApiError 400 ''El precio debe ser mayor a $0.01''))
      else create c productData docs)"

definition getProductById :: "nat \<Rightarrow> product list \<Rightarrow> error + product" where
  "getProductById i docs =
     (case findById i docs of
        None \<Rightarrow> Inl (ApiError 404 ''Producto no encontrado'')
      | Some p \<Rightarrow> Inr p)"

definition deleteProduct :: "ctx \<Rightarrow> nat \<Rightarrow> product list \<Rightarrow> product list \<times> (error + product option)" where
  "deleteProduct c i docs =
     (case findById i docs of
        None \<Rightarrow> (docs, Inl (ApiError 404 ''Producto no encontrado''))
      | Some p \<Rightarrow>
          if \<not> isActive p
            then (docs, Inl (ApiError 400 (''El producto ya est'' @ [a_acute] @ '' inactivo'')))
          else (case softDelete c i docs of (docs', deletedProduct) \<Rightarrow> (docs', Inr deletedProduct)))"

text \<open>The message of a refused adjustment ends with the current stock, written in decimal.\<close>

fun digits :: "nat \<Rightarrow> string" where
  "digits n =
     (if n < 10 then [char_of (48 + n)] else digits (n div 10) @ [char_of (48 + n mod 10)])"



definition getProductsByCategory :: "string \<Rightarrow> product list \<Rightarrow> error + product list" where
  "getProductsByCategory cat docs =
     (if cat \<notin> set validCategories
        then Inl (ApiError 400 (''Categor'' @ [i_acute] @ ''a inv'' @ [a_acute] @ ''lida. Opciones: ''
                               @ join '', '' validCategories))
      else Inr (findByCategory cat docs))"

definition getLowStockProducts :: "int \<Rightarrow> product list \<Rightarrow> error + product list" where
  "getLowStockProducts threshold docs =
     (if threshold < 0
        then Inl (ApiError 400 (''El umbral debe ser un n'' @ [u_acute] @ ''mero positivo''))
      else Inr (findLowStock threshold docs))"

record statistics =
  totalProducts :: nat
  activeProducts :: nat
  inactiveProducts :: nat
  lowStockProducts :: nat
  totalInventoryValue :: rat
  byCategory :: "string \<rightharpoonup> nat"

text \<open>
  \<open>getStatistics\<close> calls \<open>findAll()\<close> and \<open>findLowStock()\<close> with no argument: the
  defaults of both apply.
\<close>

definition getStatistics :: "product list \<Rightarrow> error + statistics" where
  "getStatistics docs =
     (case findAll (\<lambda>p. True) defaultOptions docs of
        Inl e \<Rightarrow> Inl e
      | Inr allProducts \<Rightarrow>
          (let lowStock = findLowStock 10 docs
           in Inr \<lparr> totalProducts = total_p (pagination allProducts),
                    activeProducts = length (filter (\<lambda>p. isActive p) (products allProducts)),
                    inactiveProducts = length (filter (\<lambda>p. \<not> isActive p) (products allProducts)),
                    lowStockProducts = length lowStock,
                    totalInventoryValue =
                      foldl (\<lambda>sum p. sum + price p * of_int (stock p)) 0 (products allProducts),
                    byCategory =
                      foldl (\<lambda>m p. m(category p \<mapsto> (case m (category p) of None \<Rightarrow> 0 | Some k \<Rightarrow> k) + 1))
                        Map.empty (products allProducts) \<rparr>))"

section \<open>Responses and the error handler\<close>

text \<open>
  What is written to the client: the status and the JSON body. \<open>ApiResponse\<close> is the
  class of \<open>utils/ApiResponse\<close> followed by its \<open>send\<close>; the error handler writes no data.
\<close>

record 'a httpResponse =
  status :: int
  success :: bool
  message :: string
  data :: "'a option"

definition ApiResponse :: "int \<Rightarrow> 'a \<Rightarrow> string \<Rightarrow> 'a httpResponse" where
  "ApiResponse statusCode d msg =
     \<lparr> status = statusCode, success = (statusCode < 400), message = msg, data = Some d \<rparr>"

definition created :: "'a \<Rightarrow> string \<Rightarrow> 'a httpResponse" where
  "created d msg = ApiResponse 201 d msg"

definition handleMongooseError :: "error \<Rightarrow> error" where
  "handleMongooseError err =
     (case err of
        ValidationError messages \<Rightarrow> ApiError 400 (join ''; '' messages)
      | CastError path v \<Rightarrow> ApiError 400 (''Valor inv'' @ [a_acute] @ ''lido para '' @ path @ '': '' @ v)
      | DuplicateKeyError field \<Rightarrow> ApiError 409 (''El '' @ field @ '' ya existe'')
      | _ \<Rightarrow> err)"

definition errorHandler :: "error \<Rightarrow> 'a httpResponse" where
  "errorHandler err =
     (case handleMongooseError err of
        ApiError statusCode msg \<Rightarrow>
          \<lparr> status = statusCode, success = False, message = msg, data = None \<rparr>
      | OtherError msg \<Rightarrow>
          \<lparr> status = 500, success = False,
            message = (if msg = [] then ''Error interno del servidor'' else msg), data = None \<rparr>
      | _ \<Rightarrow>
          \<lparr> status = 500, success = False, message = ''Error interno del servidor'', data = None \<rparr>)"

section \<open>The route \<open>POST /api/products\<close>\<close>

text \<open>
  \<open>routes/product.route\<close> runs \<open>Validator.validateProductCreate\<close>, then the controller's
  \<open>createProduct\<close>, which calls the service and answers 201; every error goes to the error
  handler.
\<close>

definition postProducts :: "ctx \<Rightarrow> productData \<Rightarrow> product list \<Rightarrow> product list \<times> product httpResponse" where
  "postProducts c body docs =
     (case validateProductCreate body of
        Inl e \<Rightarrow> (docs, errorHandler e)
      | Inr u \<Rightarrow>
          (case createProduct c body docs of
             (docs', Inl e) \<Rightarrow> (docs', errorHandler e)
           | (docs', Inr p) \<Rightarrow> (docs', created p ''Producto creado exitosamente'')))"

section \<open>Concrete requests and collections\<close>

text \<open>
  The inputs at which the theorems below are evaluated. \<open>ctx0\<close> is a request at time 100
  whose new document gets the id 42; its engine is never asked, since every name below is
  plain text.
\<close>

definition ctx0 :: ctx where
  "ctx0 = \<lparr> engine = (\<lambda>pat subject. False), now = 100, newId = 42 \<rparr>"

text \<open>The example of the specification.\<close>

definition widgetRequest :: productData where
  "widgetRequest =
     \<lparr> nameField = Some ''Widget Pro'',
       descriptionField = Some ''A very fine widget indeed'',
       priceField = Some 9.99,
       stockField = Some 5,
       categoryField = Some ''electronics'',
       isActiveField = None \<rparr>"

text \<open>A stored product, and a request for its name in lower case.\<close>

definition widgetStored :: product where
  "widgetStored =
     \<lparr> ident = 1, name = ''Widget Pro'', description = ''A very fine widget indeed'',
       price = 9.99, category = ''Otros'', stock = 5, isActive = True,
       createdAt = 10, updatedAt = 10 \<rparr>"


text \<open>A product that has been soft-deleted, out of stock.\<close>

definition retiredStored :: product where
  "retiredStored =
     \<lparr> ident = 2, name = ''Retired gadget'', description = ''No longer sold anywhere'',
       price = 4, category = ''Otros'', stock = 0, isActive = False,
       createdAt = 20, updatedAt = 30 \<rparr>"

text \<open>
  A request with a name of 4 characters and a description of 15, both inside the bounds
  of the validator.
\<close>

definition lampRequest :: productData where
  "lampRequest =
     \<lparr> nameField = Some ''Lamp'',
       descriptionField = Some ''Desk lamp, 40 W'',
       priceField = Some 9.99,
       stockField = Some 5,
       categoryField = Some ''electronics'',
       isActiveField = None \<rparr>"

text \<open>Active products of price 2 and stock 3 each, created one after the other.\<close>

definition unitProduct :: "nat \<Rightarrow> product" where
  "unitProduct i =
     \<lparr> ident = i, name = ''Product '' @ digits i, description = ''One of many products'',
       price = 2, category = ''Otros'', stock = 3, isActive = True,
       createdAt = i, updatedAt = i \<rparr>"

definition elevenProducts :: "product list" where
  "elevenProducts = map unitProduct [1 ..< 12]"

definition fifteenProducts :: "product list" where
  "fifteenProducts = map unitProduct [1 ..< 16]"

section \<open>Lemmas on the repository\<close>

lemma findByIdAndUpdate_found:
  assumes "findById i docs = Some p" and "\<And>q. ident (f q) = ident q"
  shows "\<exists>docs'. findByIdAndUpdate f i docs = (docs', Some (f p)) \<and> findById i docs' = Some (f p)
      \<and> length docs' = length docs"
  using assms(1)
proof (induction docs)
  case Nil
  then show ?case by (simp add: findById_def)
next
  case (Cons q qs)
  show ?case
  proof (cases "ident q = i")
    case True
    with Cons.prems have "q = p" by (simp add: findById_def)
    with True show ?thesis by (simp add: findById_def assms(2))
  next
    case False
    with Cons.prems have "findById i qs = Some p" by (simp add: findById_def)
    from Cons.IH [OF this] obtain qs' where
      "findByIdAndUpdate f i qs = (qs', Some (f p))" "findById i qs' = Some (f p)" "length qs' = length qs"
      by blast
    with False show ?thesis by (simp add: findById_def)
  qed
qed



lemma set_insertDoc: "set (insertDoc le x xs) = insert x (set xs)"
  by (induction xs) auto

lemma set_sortDocs: "set (sortDocs path dir xs) = set xs"
  unfolding sortDocs_def by (induction xs) (auto simp: set_insertDoc)

section \<open>Stock adjustment\<close>



section \<open>Soft delete\<close>

text \<open>
  C8. For a product of the collection: the service's \<open>deleteProduct\<close> fails with an error
  (an \<open>ApiError\<close> 400, the collection unchanged) when the product's \<open>isActive\<close> is false;
  when it is true, \<open>deleteProduct\<close> succeeds, the returned product has \<open>isActive\<close> false, and
  \<open>getProductById\<close> still finds that record by its id afterwards.
\<close>

theorem deleteProduct_soft:
  assumes "findById i docs = Some p"
  shows "(\<not> isActive p \<longrightarrow>
            deleteProduct c i docs =
              (docs, Inl (ApiError 400 (''El producto ya est'' @ [a_acute] @ '' inactivo''))))
       \<and> (isActive p \<longrightarrow>
            (\<exists>docs' p'. deleteProduct c i docs = (docs', Inr (Some p'))
               \<and> isActive p' = False \<and> getProductById i docs' = Inr p'))"
proof (intro conjI impI)
  assume "\<not> isActive p"
  with assms show "deleteProduct c i docs =
      (docs, Inl (ApiError 400 (''El producto ya est'' @ [a_acute] @ '' inactivo'')))"
    by (simp add: deleteProduct_def)
next
  assume act: "isActive p"
  let ?f = "\<lambda>q. q\<lparr>isActive := False, updatedAt := now c\<rparr>"
  from findByIdAndUpdate_found [OF assms, of ?f] obtain docs' where
    upd: "findByIdAndUpdate ?f i docs = (docs', Some (?f p))" and
    fnd: "findById i docs' = Some (?f p)"
    by auto
  from assms act upd have "deleteProduct c i docs = (docs', Inr (Some (?f p)))"
    by (simp add: deleteProduct_def softDelete_def)
  moreover from fnd have "getProductById i docs' = Inr (?f p)"
    by (simp add: getProductById_def)
  ultimately show "\<exists>docs' p'. deleteProduct c i docs = (docs', Inr (Some p'))
               \<and> isActive p' = False \<and> getProductById i docs' = Inr p'"
    by auto
qed

theorem deleteProduct_soft_witness:
  "findById 1 [widgetStored, retiredStored] = Some widgetStored
   \<and> findById 2 [widgetStored, retiredStored] = Some retiredStored
   \<and> deleteProduct ctx0 2 [widgetStored, retiredStored] =
       ([widgetStored, retiredStored],
        Inl (ApiError 400 (''El producto ya est'' @ [a_acute] @ '' inactivo'')))
   \<and> (\<exists>docs' p'. deleteProduct ctx0 1 [widgetStored, retiredStored] = (docs', Inr (Some p'))
         \<and> isActive p' = False \<and> getProductById 1 docs' = Inr p')"
proof -
  have h1: "findById 1 [widgetStored, retiredStored] = Some widgetStored"
    by (simp add: findById_def widgetStored_def)
  have h2: "findById 2 [widgetStored, retiredStored] = Some retiredStored"
    by (simp add: findById_def widgetStored_def retiredStored_def)
  have a1: "isActive widgetStored" by (simp add: widgetStored_def)
  have a2: "\<not> isActive retiredStored" by (simp add: retiredStored_def)
  from deleteProduct_soft [OF h1, of ctx0] deleteProduct_soft [OF h2, of ctx0] h1 h2 a1 a2
  show ?thesis by simp
qed

text \<open>
  C10. A successful soft delete of a product (the repository's \<open>softDelete\<close>, which
  returns the updated record) leaves the name, the description, the price, the category
  and the stock of the record as they were, as well as its id and its creation time;
  \<open>isActive\<close> becomes false.
\<close>

theorem softDelete_frame:
  assumes "findById i docs = Some p" and "softDelete c i docs = (docs', r)"
  shows "\<exists>p'. r = Some p' \<and> findById i docs' = Some p'
           \<and> isActive p' = False
           \<and> ident p' = ident p \<and> name p' = name p \<and> description p' = description p
           \<and> price p' = price p \<and> category p' = category p \<and> stock p' = stock p
           \<and> createdAt p' = createdAt p"
proof -
  let ?f = "\<lambda>q. q\<lparr>isActive := False, updatedAt := now c\<rparr>"
  from findByIdAndUpdate_found [OF assms(1), of ?f] obtain ds where
    upd: "findByIdAndUpdate ?f i docs = (ds, Some (?f p))" and
    fnd: "findById i ds = Some (?f p)"
    by auto
  from upd assms(2) have "docs' = ds" "r = Some (?f p)"
    by (simp_all add: softDelete_def)
  with fnd show ?thesis by simp
qed

theorem softDelete_frame_witness:
  "findById 1 [widgetStored, retiredStored] = Some widgetStored
   \<and> softDelete ctx0 1 [widgetStored, retiredStored] =
       ([widgetStored\<lparr>isActive := False, updatedAt := 100\<rparr>, retiredStored],
        Some (widgetStored\<lparr>isActive := False, updatedAt := 100\<rparr>))
   \<and> (\<exists>p'. findById 1 [widgetStored\<lparr>isActive := False, updatedAt := 100\<rparr>, retiredStored] = Some p'
         \<and> isActive p' = False \<and> name p' = ''Widget Pro''
         \<and> description p' = ''A very fine widget indeed'' \<and> price p' = 9.99
         \<and> category p' = ''Otros'' \<and> stock p' = 5)"
proof -
  have h: "findById 1 [widgetStored, retiredStored] = Some widgetStored"
    by (simp add: findById_def widgetStored_def)
  have e: "softDelete ctx0 1 [widgetStored, retiredStored] =
       ([widgetStored\<lparr>isActive := False, updatedAt := 100\<rparr>, retiredStored],
        Some (widgetStored\<lparr>isActive := False, updatedAt := 100\<rparr>))"
    by (simp add: softDelete_def widgetStored_def ctx0_def)
  from softDelete_frame [OF h e] h e show ?thesis
    by (auto simp: widgetStored_def)
qed

section \<open>Category and low-stock lookups\<close>

text \<open>
  C9. In every collection, the category lookup and the low-stock lookup, in the repository
  and through the service, return only products whose \<open>isActive\<close> is true: a product with
  \<open>isActive\<close> false is in neither result, whatever its category and its stock.
\<close>

theorem lookups_only_active:
  "(\<forall>p \<in> set (findByCategory cat docs). isActive p)
   \<and> (\<forall>p \<in> set (findLowStock threshold docs). isActive p)
   \<and> (\<forall>p \<in> set docs. \<not> isActive p \<longrightarrow>
          p \<notin> set (findByCategory cat docs) \<and> p \<notin> set (findLowStock threshold docs))
   \<and> (\<forall>xs. getProductsByCategory cat docs = Inr xs \<longrightarrow> (\<forall>p \<in> set xs. isActive p))
   \<and> (\<forall>xs. getLowStockProducts threshold docs = Inr xs \<longrightarrow> (\<forall>p \<in> set xs. isActive p))"
  by (auto simp: findByCategory_def findLowStock_def getProductsByCategory_def
        getLowStockProducts_def split: if_splits)

theorem lookups_only_active_witness:
  "retiredStored \<in> set [widgetStored, retiredStored]
   \<and> \<not> isActive retiredStored
   \<and> category retiredStored = ''Otros'' \<and> stock retiredStored \<le> 10
   \<and> findByCategory ''Otros'' [widgetStored, retiredStored] = [widgetStored]
   \<and> findLowStock 10 [widgetStored, retiredStored] = [widgetStored]
   \<and> retiredStored \<notin> set (findByCategory ''Otros'' [widgetStored, retiredStored])
   \<and> retiredStored \<notin> set (findLowStock 10 [widgetStored, retiredStored])
   \<and> getLowStockProducts 10 [widgetStored, retiredStored] = Inr [widgetStored]"
proof -
  have m: "retiredStored \<in> set [widgetStored, retiredStored]" by simp
  have a: "\<not> isActive retiredStored" by (simp add: retiredStored_def)
  have e1: "findByCategory ''Otros'' [widgetStored, retiredStored] = [widgetStored]"
    by (simp add: findByCategory_def widgetStored_def retiredStored_def)
  have e2: "findLowStock 10 [widgetStored, retiredStored] = [widgetStored]"
    by (simp add: findLowStock_def widgetStored_def retiredStored_def)
  have e3: "getLowStockProducts 10 [widgetStored, retiredStored] = Inr [widgetStored]"
    by (simp add: getLowStockProducts_def e2)
  from lookups_only_active [of "''Otros''" "[widgetStored, retiredStored]" 10] m a
  have "retiredStored \<notin> set (findByCategory ''Otros'' [widgetStored, retiredStored])
      \<and> retiredStored \<notin> set (findLowStock 10 [widgetStored, retiredStored])"
    by blast
  with m a e1 e2 e3 show ?thesis by (simp add: retiredStored_def)
qed

section \<open>Pagination\<close>



text \<open>The second page of fifteen products, newest first, holds the five oldest.\<close>

lemma findAll_second_page_of_fifteen:
  "map_sum id (\<lambda>r. map ident (products r))
     (findAll (\<lambda>p. True) \<lparr> page = 2, limit = 10, sortBy = ''createdAt'', sortOrder = ''desc'' \<rparr>
        fifteenProducts) = Inr [5, 4, 3, 2, 1]"
  by code_simp

text \<open>Otherwise the skip is negative, and the store refuses the query.\<close>

lemma findAll_negative_skip:
  assumes "(p - 1) * int l < 0"
  shows "\<exists>e. findAll filters \<lparr> page = p, limit = l, sortBy = sb, sortOrder = so \<rparr> docs = Inl e"
  using assms by (simp add: findAll_def Let_def)

section \<open>Statistics\<close>

text \<open>
  C4 (the code departs from it). \<open>getStatistics\<close> reads the products through \<open>findAll()\<close>
  with its default options, that is the first page of 10 records: over the eleven active
  products of \<open>elevenProducts\<close>, each worth 2 times 3, it reports \<open>totalProducts = 11\<close> but
  \<open>activeProducts = 10\<close> and \<open>totalInventoryValue = 60\<close>, where the collection has 11
  active products and an inventory worth 66.
\<close>

theorem getStatistics_eleven_products:
  "length elevenProducts = 11
   \<and> length (filter isActive elevenProducts) = 11
   \<and> (\<Sum>p \<leftarrow> elevenProducts. price p * of_int (stock p)) = 66
   \<and> map_sum id (\<lambda>s. (totalProducts s, activeProducts s, inactiveProducts s, totalInventoryValue s))
        (getStatistics elevenProducts) = Inr (11, 10, 0, 60)"
  by code_simp

text \<open>
  In general the counts of active and inactive products and the inventory value are taken
  over the ten most recently created records only, while \<open>totalProducts\<close> counts them all.
\<close>

lemma getStatistics_first_page:
  "\<exists>s. getStatistics docs = Inr s
     \<and> totalProducts s = length docs
     \<and> activeProducts s = length (filter isActive (take 10 (sortDocs ''createdAt'' (- 1) docs)))
     \<and> inactiveProducts s = length (filter (\<lambda>p. \<not> isActive p) (take 10 (sortDocs ''createdAt'' (- 1) docs)))
     \<and> totalInventoryValue s = (\<Sum>p \<leftarrow> take 10 (sortDocs ''createdAt'' (- 1) docs). price p * of_int (stock p))"
proof -
  have fold_sum: "foldl (\<lambda>sum p. sum + price p * of_int (stock p)) a xs
      = a + (\<Sum>p \<leftarrow> xs. price p * of_int (stock p))" for a and xs :: "product list"
    by (induction xs arbitrary: a) (simp_all add: add.assoc)
  show ?thesis
    by (simp add: getStatistics_def findAll_def defaultOptions_def limitDocs_def Let_def fold_sum)
qed

section \<open>Creating a product\<close>





text \<open>
  The validator of the route admits the categories \<open>validCategories\<close> only, and the schema
  the categories \<open>schemaCategories\<close> only. The two lists have no element in common, so
  every request that passes the validator is refused by \<open>save\<close>.
\<close>

lemma validateProductCreate_Inl:
  "validateProductCreate body = Inl e \<Longrightarrow> \<exists>msg. e = ApiError 400 msg"
  by (auto simp: validateProductCreate_def Let_def split: if_splits)

lemma validateProductCreate_category:
  assumes "validateProductCreate body = Inr u"
  shows "\<exists>cat. categoryField body = Some cat \<and> cat \<in> set validCategories"
proof (cases "categoryField body")
  case None
  with assms show ?thesis
    by (simp add: validateProductCreate_def Let_def)
next
  case (Some cat)
  with assms have "cat \<in> set validCategories"
    by (auto simp: validateProductCreate_def Let_def split: if_splits)
  with Some show ?thesis by simp
qed

lemma categories_disjoint: "cat \<in> set validCategories \<Longrightarrow> cat \<notin> set schemaCategories"
  by (auto simp: validCategories_def schemaCategories_def)

lemma create_rejects_valid_category:
  assumes "categoryField body = Some cat" and "cat \<in> set validCategories"
  shows "\<exists>msgs. create c body docs = (docs, Inl (ValidationError msgs))"
proof -
  from assms(2) have "cat \<noteq> []" by (auto simp: validCategories_def)
  with assms categories_disjoint [OF assms(2)]
  have "validateCategory (categoryField body) \<noteq> []"
    by (simp add: validateCategory_def)
  then show ?thesis
    by (simp add: create_def Let_def)
qed

lemma errorHandler_ApiError: "status (errorHandler (ApiError k msg)) = k"
  by (simp add: errorHandler_def handleMongooseError_def)

lemma errorHandler_ValidationError: "status (errorHandler (ValidationError msgs)) = 400"
  by (simp add: errorHandler_def handleMongooseError_def)

lemma postProducts_always_400:
  "fst (postProducts c body docs) = docs \<and> status (snd (postProducts c body docs)) = 400"
proof (cases "validateProductCreate body")
  case (Inl e)
  then obtain msg where "e = ApiError 400 msg"
    using validateProductCreate_Inl by blast
  with Inl show ?thesis
    by (simp add: postProducts_def errorHandler_ApiError)
next
  case (Inr u)
  from validateProductCreate_category [OF Inr] obtain cat where
    cat: "categoryField body = Some cat" "cat \<in> set validCategories" by blast
  from create_rejects_valid_category [OF cat] obtain msgs where
    "create c body docs = (docs, Inl (ValidationError msgs))" by blast
  then have "\<exists>e. createProduct c body docs = (docs, Inl e) \<and> status (errorHandler e :: product httpResponse) = 400"
    by (auto simp: createProduct_def errorHandler_ApiError errorHandler_ValidationError)
  with Inr show ?thesis
    by (auto simp: postProducts_def)
qed

text \<open>
  C2 (the code departs from it). The create request of the specification's example,
  sent to \<open>POST /api/products\<close> on an empty collection, is answered with the status 400
  and no data, and nothing is stored: the validator admits the category \<open>electronics\<close>,
  the enum of the schema does not.
\<close>

theorem postProducts_widget_example:
  "postProducts c widgetRequest [] =
     ([], \<lparr> status = 400, success = False,
            message = ''electronics no en una categor'' @ [i_acute] @ ''a v'' @ [a_acute] @ ''lida'',
            data = None \<rparr>)"
  by (simp add: postProducts_def validateProductCreate_def widgetRequest_def trim_def
        isSpaceChar_def validCategories_def createProduct_def existsByName_def templateName_def
        create_def validateName_def validateDescription_def validatePrice_def
        validateCategory_def validateStock_def schemaCategories_def errorHandler_def
        handleMongooseError_def Let_def)

text \<open>
  C6 (the code departs from it). Create requests with the prices 0.00 and 0.005 are
  answered with the status 400 by the business rule on the price; the same request with
  the price 0.01 passes that rule, and is answered with the status 400 as well, by the
  enum of the schema on its category.
\<close>

theorem postProducts_price_boundary:
  "snd (postProducts c (widgetRequest\<lparr> priceField := Some 0.00 \<rparr>) []) =
     \<lparr> status = 400, success = False, message = ''El precio debe ser mayor a $0.01'', data = None \<rparr>
   \<and> snd (postProducts c (widgetRequest\<lparr> priceField := Some 0.005 \<rparr>) []) =
     \<lparr> status = 400, success = False, message = ''El precio debe ser mayor a $0.01'', data = None \<rparr>
   \<and> postProducts c (widgetRequest\<lparr> priceField := Some 0.01 \<rparr>) [] =
     ([], \<lparr> status = 400, success = False,
            message = ''electronics no en una categor'' @ [i_acute] @ ''a v'' @ [a_acute] @ ''lida'',
            data = None \<rparr>)"
  by (simp add: postProducts_def validateProductCreate_def widgetRequest_def trim_def
        isSpaceChar_def validCategories_def createProduct_def existsByName_def templateName_def
        create_def validateName_def validateDescription_def validatePrice_def
        validateCategory_def validateStock_def schemaCategories_def errorHandler_def
        handleMongooseError_def Let_def)

text \<open>
  The business rule itself lets the price 0.01 through: called on data with a category
  of the schema, the service stores the product.
\<close>

lemma createProduct_minimum_price_at_service:
  "createProduct ctx0 (widgetRequest\<lparr> priceField := Some 0.01, categoryField := Some ''Otros'' \<rparr>) [] =
     ([\<lparr> ident = 42, name = ''Widget Pro'', description = ''A very fine widget indeed'',
         price = 0.01, category = ''Otros'', stock = 5, isActive = True,
         createdAt = 100, updatedAt = 100 \<rparr>],
      Inr \<lparr> ident = 42, name = ''Widget Pro'', description = ''A very fine widget indeed'',
         price = 0.01, category = ''Otros'', stock = 5, isActive = True,
         createdAt = 100, updatedAt = 100 \<rparr>)"
  by (simp add: widgetRequest_def ctx0_def trim_def
        isSpaceChar_def createProduct_def existsByName_def templateName_def
        create_def validateName_def validateDescription_def validatePrice_def
        validateCategory_def validateStock_def schemaCategories_def capitalize_def toUpperChar_def
        upperChars_def lowerChars_def Let_def)

text \<open>
  C7 (the code departs from it). A create request with a name of 4 characters and a
  description of 15 passes the validator, whose bounds are 3 to 100 and 10 to 500, and is
  then refused by the schema, whose \<open>minlength\<close> is 6 for the name and 20 for the
  description (under messages that say 3 and 10): the route answers 400, and the service
  refuses the same data even with a category of the schema.
\<close>

theorem create_short_name_and_description:
  "validateProductCreate lampRequest = Inr ()
   \<and> snd (postProducts c lampRequest []) =
       \<lparr> status = 400, success = False,
         message = ''El nombre del producto debe tener al menos 3 caracteres; ''
           @ ''La descripci'' @ [o_acute] @ ''n del producto debe tener al menos 10 caracteres; ''
           @ ''electronics no en una categor'' @ [i_acute] @ ''a v'' @ [a_acute] @ ''lida'',
         data = None \<rparr>
   \<and> createProduct c (lampRequest\<lparr> categoryField := Some ''Otros'' \<rparr>) [] =
       ([], Inl (ValidationError
          [''El nombre del producto debe tener al menos 3 caracteres'',
           ''La descripci'' @ [o_acute] @ ''n del producto debe tener al menos 10 caracteres'']))"
  by (simp add: postProducts_def validateProductCreate_def lampRequest_def trim_def
        isSpaceChar_def validCategories_def createProduct_def existsByName_def templateName_def
        create_def validateName_def validateDescription_def validatePrice_def
        validateCategory_def validateStock_def schemaCategories_def errorHandler_def
        handleMongooseError_def Let_def)

text \<open>
  The other half of the bounds holds at the validator: a name shorter than 3 or longer
  than 100 characters, or a description shorter than 10 or longer than 500, is refused
  with an \<open>ApiError\<close> 400.
\<close>

lemma validateProductCreate_name_out_of_bounds:
  assumes "nameField body = Some n" and "length n < 3 \<or> 100 < length n"
  shows "\<exists>msg. validateProductCreate body = Inl (ApiError 400 msg)"
  using assms by (auto simp: validateProductCreate_def Let_def)

lemma validateProductCreate_description_out_of_bounds:
  assumes "descriptionField body = Some d" and "length d < 10 \<or> 500 < length d"
  shows "\<exists>msg. validateProductCreate body = Inl (ApiError 400 msg)"
  using assms by (auto simp: validateProductCreate_def Let_def)

end
